theory Spec2Isabelle
  imports Main
begin

section \<open>JSON values and the JavaScript operations the workers apply to them\<close>

text \<open>
  Every payload exchanged between the \<open>/start\<close> handler, the two Durable Objects and the
  completion provider is JSON text produced by \<open>JSON.stringify\<close> and read back by
  \<open>.json()\<close>. A payload is modelled by its parsed value. Numbers are integers (the only
  numbers the workers themselves produce are iteration counts); an object is an association
  list read with \<open>map_of\<close>. A JavaScript value that may be \<open>undefined\<close> is a
  \<open>json option\<close>, \<open>None\<close> being \<open>undefined\<close>.
\<close>

datatype json =
    JNull
  | JBool bool
  | JNum int
  | JStr string
  | JArr "json list"
  | JObj "(string \<times> json) list"

text \<open>A JavaScript \<open>Error\<close> object: the two properties the workers read.\<close>

record js_error =
  message :: string
  stack :: string

type_synonym 'a thrown = "js_error + 'a"

fun show_nat :: "nat \<Rightarrow> string" where
  "show_nat n =
     (if n < 10 then [''0123456789'' ! n]
      else show_nat (n div 10) @ [''0123456789'' ! (n mod 10)])"

declare show_nat.simps [simp del]

definition show_int :: "int \<Rightarrow> string" where
  "show_int i = (if i < 0 then ''-'' @ show_nat (nat (- i)) else show_nat (nat i))"

fun join :: "string \<Rightarrow> string list \<Rightarrow> string" where
  "join sep [] = []"
| "join sep [x] = x"
| "join sep (x # y # ys) = x @ sep @ join sep (y # ys)"

text \<open>
  \<open>ToString\<close>, as a template literal \<open>`${v}`\<close> applies it: an object prints as
  \<open>[object Object]\<close>, an array as its elements joined by commas with \<open>null\<close> printed
  as nothing.
\<close>

fun to_string :: "json \<Rightarrow> string" where
  "to_string JNull = ''null''"
| "to_string (JBool b) = (if b then ''true'' else ''false'')"
| "to_string (JNum n) = show_int n"
| "to_string (JStr s) = s"
| "to_string (JArr xs) = join '','' (map (\<lambda>x. if x = JNull then [] else to_string x) xs)"
| "to_string (JObj kvs) = ''[object Object]''"

definition template :: "json option \<Rightarrow> string" where
  "template v = (case v of None \<Rightarrow> ''undefined'' | Some j \<Rightarrow> to_string j)"

text \<open>Truthiness, as \<open>!v\<close> and \<open>v || d\<close> test it.\<close>

fun truthy :: "json option \<Rightarrow> bool" where
  "truthy None = False"
| "truthy (Some JNull) = False"
| "truthy (Some (JBool b)) = b"
| "truthy (Some (JNum n)) = (n \<noteq> 0)"
| "truthy (Some (JStr s)) = (s \<noteq> [])"
| "truthy (Some (JArr xs)) = True"
| "truthy (Some (JObj kvs)) = True"

text \<open>
  \<open>JSON.stringify\<close> of an object literal: a property whose value is \<open>undefined\<close> is
  left out of the text, so it is absent after parsing.
\<close>

fun mk_obj :: "(string \<times> json option) list \<Rightarrow> (string \<times> json) list" where
  "mk_obj [] = []"
| "mk_obj ((k, None) # kvs) = mk_obj kvs"
| "mk_obj ((k, Some v) # kvs) = (k, v) # mk_obj kvs"

text \<open>
  Property access \<open>v.k\<close>. Reading a property of \<open>null\<close> throws a \<open>TypeError\<close>
  (\<open>Inl\<close> carries its message); the primitives and the arrays have no property of the
  names used here, so the access yields \<open>undefined\<close>.
\<close>

definition quoted :: "string \<Rightarrow> string" where
  "quoted k = [CHR 0x27] @ k @ [CHR 0x27]"

definition read_null :: "string \<Rightarrow> string" where
  "read_null k = ''Cannot read properties of null (reading '' @ quoted k @ '')''"

definition read_undefined :: "string \<Rightarrow> string" where
  "read_undefined k = ''Cannot read properties of undefined (reading '' @ quoted k @ '')''"

fun get_prop :: "json \<Rightarrow> string \<Rightarrow> string + json option" where
  "get_prop JNull k = Inl (read_null k)"
| "get_prop (JObj kvs) k = Inr (map_of kvs k)"
| "get_prop v k = Inr None"

text \<open>The same access on a value that may be \<open>undefined\<close>.\<close>

fun prop_u :: "json option \<Rightarrow> string \<Rightarrow> string + json option" where
  "prop_u None k = Inl (read_undefined k)"
| "prop_u (Some v) k = get_prop v k"

text \<open>Element access \<open>v[0]\<close>.\<close>

fun first_elem :: "json option \<Rightarrow> string + json option" where
  "first_elem None = Inl (read_undefined ''0'')"
| "first_elem (Some JNull) = Inl (read_null ''0'')"
| "first_elem (Some (JArr xs)) = Inr (case xs of [] \<Rightarrow> None | x # _ \<Rightarrow> Some x)"
| "first_elem (Some (JStr s)) = Inr (case s of [] \<Rightarrow> None | c # _ \<Rightarrow> Some (JStr [c]))"
| "first_elem (Some (JObj kvs)) = Inr (map_of kvs ''0'')"
| "first_elem (Some v) = Inr None"

text \<open>Optional chaining \<open>v?.k\<close>: \<open>undefined\<close> when \<open>v\<close> is \<open>null\<close> or \<open>undefined\<close>.\<close>

fun opt_prop :: "json option \<Rightarrow> string \<Rightarrow> json option" where
  "opt_prop None k = None"
| "opt_prop (Some (JObj kvs)) k = map_of kvs k"
| "opt_prop (Some v) k = None"

text \<open>
  \<open>(v || 0) + 1\<close>: a falsy \<open>v\<close> counts as \<open>0\<close>; \<open>+\<close> adds numbers (\<open>true\<close> is
  \<open>1\<close>) and concatenates once an operand prints as a string.
\<close>

definition or_zero_plus_one :: "json option \<Rightarrow> json" where
  "or_zero_plus_one v =
     (if \<not> truthy v then JNum 1
      else case v of
          Some (JNum n) \<Rightarrow> JNum (n + 1)
        | Some (JBool b) \<Rightarrow> JNum 2
        | Some j \<Rightarrow> JStr (to_string j @ ''1'')
        | None \<Rightarrow> JNum 1)"

section \<open>The world outside the workers\<close>

text \<open>
  What a run can observe and change: the completion provider, the console, and the stack
  text the engine records in a new \<open>Error\<close>. The provider answers the \<open>k\<close>-th request of
  a run (counted from \<open>0\<close>) as a function of \<open>k\<close> and of the prompt; \<open>sent\<close> lists the
  prompts of the requests issued so far, oldest first. The other fields of a request (model,
  credential) are fixed for a deployment and are not recorded.
\<close>

datatype log_entry =
    Log string
  | Log_json string json
  | Log_error string js_error
  | Log_text string string

record 'r world =
  provider :: "nat \<Rightarrow> string \<Rightarrow> 'r"
  stack_of :: "string \<Rightarrow> string"
  sent :: "string list"
  console :: "log_entry list"

definition emit :: "log_entry \<Rightarrow> 'r world \<Rightarrow> 'r world" where
  "emit e w = w\<lparr>console := console w @ [e]\<rparr>"

definition new_error :: "'r world \<Rightarrow> string \<Rightarrow> js_error" where
  "new_error w m = \<lparr>message = m, stack = stack_of w m\<rparr>"

definition call_provider :: "string \<Rightarrow> 'r world \<Rightarrow> 'r \<times> 'r world" where
  "call_provider prompt w = (provider w (length (sent w)) prompt, w\<lparr>sent := sent w @ [prompt]\<rparr>)"

record response =
  status :: nat
  body :: json

section \<open>src/index.ts\<close>

text \<open>
  \<open>interface Env\<close>. A variable that is not configured reads as \<open>undefined\<close>
  (\<open>None\<close>).
\<close>

record env =
  OPENAI_API_KEY :: "string option"

definition key_configured :: "'e env_scheme \<Rightarrow> bool" where
  "key_configured e = (case OPENAI_API_KEY e of None \<Rightarrow> False | Some k \<Rightarrow> k \<noteq> [])"

record ai_config =
  model :: string
  maxIterations :: int

definition AI_CONFIG :: ai_config where
  "AI_CONFIG = \<lparr>model = ''gpt-4o-mini'', maxIterations = 2\<rparr>"

text \<open>
  \<open>safe\<close>: log the start, run the operation, log its completion; an error is logged and
  thrown again.
\<close>

definition safe ::
  "('r world \<Rightarrow> 'a thrown \<times> 'r world) \<Rightarrow> string \<Rightarrow> 'r world \<Rightarrow> 'a thrown \<times> 'r world" where
  "safe operation ctx w =
     (case operation (emit (Log (ctx @ '' started'')) w) of
        (Inr result, w') \<Rightarrow> (Inr result, emit (Log (ctx @ '' completed'')) w')
      | (Inl err, w') \<Rightarrow> (Inl err, emit (Log_error (''Error in '' @ ctx @ '':'') err) w'))"

text \<open>
  The answer of \<open>fetch\<close> to the provider, as \<open>askAI\<close> reads it: \<open>Rejects\<close> when
  \<open>fetch\<close> or \<open>response.json()\<close> throws, otherwise the flag \<open>response.ok\<close> and the
  parsed body.
\<close>

datatype fetch_reply = Rejects js_error | Http bool json

text \<open>\<open>result.choices[0].message.content\<close>\<close>

definition content_of :: "json \<Rightarrow> string + json option" where
  "content_of result =
     (case get_prop result ''choices'' of
        Inl m \<Rightarrow> Inl m
      | Inr choices \<Rightarrow>
          (case first_elem choices of
             Inl m \<Rightarrow> Inl m
           | Inr c0 \<Rightarrow>
               (case prop_u c0 ''message'' of
                  Inl m \<Rightarrow> Inl m
                | Inr msg \<Rightarrow> prop_u msg ''content'')))"

definition askAI_body ::
  "'e env_scheme \<Rightarrow> string \<Rightarrow> fetch_reply world \<Rightarrow> (json option) thrown \<times> fetch_reply world" where
  "askAI_body e prompt w =
     (if \<not> key_configured e then (Inl (new_error w ''OpenAI API key not configured''), w)
      else
        (case call_provider prompt w of
           (Rejects err, w1) \<Rightarrow> (Inl err, w1)
         | (Http ok result, w1) \<Rightarrow>
             if \<not> ok then
               (case get_prop result ''error'' of
                  Inl m \<Rightarrow> (Inl (new_error w1 m), w1)
                | Inr err \<Rightarrow>
                    (Inl (new_error w1 (''OpenAI API: '' @ template (opt_prop err ''message''))), w1))
             else
               (case content_of result of
                  Inl m \<Rightarrow> (Inl (new_error w1 m), w1)
                | Inr c \<Rightarrow> (Inr c, w1))))"

definition askAI ::
  "string \<Rightarrow> 'e env_scheme \<Rightarrow> fetch_reply world \<Rightarrow> (json option) thrown \<times> fetch_reply world" where
  "askAI prompt e w = safe (askAI_body e prompt) ''askAI'' w"

text \<open>
  \<open>const { topic, iteration = 0 } = await request.json()\<close>: destructuring \<open>null\<close>
  throws; an absent \<open>iteration\<close> takes the default.
\<close>

definition destructure :: "json \<Rightarrow> string + (json option \<times> json)" where
  "destructure request =
     (case get_prop request ''topic'' of
        Inl m \<Rightarrow> Inl (''Cannot destructure property '' @ quoted ''topic'' @ '' of null'')
      | Inr topic \<Rightarrow>
          (case get_prop request ''iteration'' of
             Inl m \<Rightarrow> Inl m
           | Inr None \<Rightarrow> Inr (topic, JNum 0)
           | Inr (Some i) \<Rightarrow> Inr (topic, i)))"

definition research_prompt :: "json option \<Rightarrow> string" where
  "research_prompt topic = ''Research this topic: '' @ template topic"

definition factcheck_prompt :: "json option \<Rightarrow> string" where
  "factcheck_prompt research = ''Verify and improve: '' @ template research"

definition ResearchFetcherDO_body ::
  "'e env_scheme \<Rightarrow> json \<Rightarrow> fetch_reply world \<Rightarrow> response thrown \<times> fetch_reply world" where
  "ResearchFetcherDO_body e request w =
     (case destructure request of
        Inl m \<Rightarrow> (Inl (new_error w m), w)
      | Inr (topic, iter) \<Rightarrow>
          if \<not> truthy topic then (Inl (new_error w ''No topic provided''), w)
          else
            (case askAI (research_prompt topic) e w of
               (Inl err, w1) \<Rightarrow> (Inl err, w1)
             | (Inr research, w1) \<Rightarrow>
                 (Inr \<lparr>status = 200,
                       body = JObj (mk_obj [(''research'', research), (''iteration'', Some iter)])\<rparr>,
                  w1)))"

definition ResearchFetcherDO_fetch ::
  "'e env_scheme \<Rightarrow> json \<Rightarrow> fetch_reply world \<Rightarrow> response thrown \<times> fetch_reply world" where
  "ResearchFetcherDO_fetch e request w = safe (ResearchFetcherDO_body e request) ''ResearchFetcherDO'' w"

text \<open>\<open>FactCheckerDO.fetch\<close>: the \<open>try\<close> block, then the whole method with its \<open>catch\<close>.\<close>

definition FactCheckerDO_try ::
  "'e env_scheme \<Rightarrow> json \<Rightarrow> fetch_reply world \<Rightarrow> response thrown \<times> fetch_reply world" where
  "FactCheckerDO_try e request w =
     (let w1 = emit (Log_json ''FactCheckerDO received:'' request) w;
          w2 = emit (Log ''Calling OpenAI for fact check...'') w1
      in case get_prop request ''research'' of
           Inl m \<Rightarrow> (Inl (new_error w2 m), w2)
         | Inr research \<Rightarrow>
             (case askAI (factcheck_prompt research) e w2 of
                (Inl err, w3) \<Rightarrow> (Inl err, w3)
              | (Inr refined, w3) \<Rightarrow>
                  (Inr \<lparr>status = 200,
                        body = JObj (mk_obj [(''research'', refined),
                          (''iteration'', Some (or_zero_plus_one (opt_prop (Some request) ''iteration'')))])\<rparr>,
                   emit (Log ''Fact check received from OpenAI'') w3)))"

definition error_payload :: "js_error \<Rightarrow> response" where
  "error_payload err =
     \<lparr>status = 500, body = JObj [(''error'', JStr (message err)), (''stack'', JStr (stack err))]\<rparr>"

definition FactCheckerDO_fetch ::
  "'e env_scheme \<Rightarrow> json \<Rightarrow> fetch_reply world \<Rightarrow> response \<times> fetch_reply world" where
  "FactCheckerDO_fetch e request w =
     (case FactCheckerDO_try e request w of
        (Inr resp, w') \<Rightarrow> (resp, w')
      | (Inl err, w') \<Rightarrow> (error_payload err, emit (Log_error ''Error in FactCheckerDO:'' err) w'))"

text \<open>
  The variables of the \<open>while\<close> loop of \<open>/start\<close>, and one pass of its body. \<open>topic\<close> is
  \<open>body.topic\<close>, read again in every pass from the request body, which never changes.
\<close>

record loop_vars =
  currentData :: json
  iteration :: int
  finalResult :: json

definition loop_pass ::
  "'e env_scheme \<Rightarrow> json option \<Rightarrow> loop_vars \<Rightarrow> fetch_reply world \<Rightarrow> loop_vars thrown \<times> fetch_reply world" where
  "loop_pass e topic v w =
     (case ResearchFetcherDO_fetch e (currentData v) w of
        (Inl err, w1) \<Rightarrow> (Inl err, w1)
      | (Inr researchResponse, w1) \<Rightarrow>
          (case FactCheckerDO_fetch e (body researchResponse) w1 of
             (factCheckResponse, w2) \<Rightarrow>
               (case get_prop (body factCheckResponse) ''research'' of
                  Inl m \<Rightarrow> (Inl (new_error w2 m), w2)
                | Inr r \<Rightarrow>
                    (Inr \<lparr>currentData = JObj (mk_obj [(''topic'', topic), (''research'', r),
                            (''iteration'', Some (JNum (iteration v + 1)))]),
                          iteration = iteration v + 1,
                          finalResult = body factCheckResponse\<rparr>,
                     w2))))"

text \<open>The \<open>while\<close> loop of \<open>/start\<close>.\<close>

function run_loop ::
  "ai_config \<Rightarrow> 'e env_scheme \<Rightarrow> json option \<Rightarrow> loop_vars \<Rightarrow> fetch_reply world
     \<Rightarrow> loop_vars thrown \<times> fetch_reply world" where
  "run_loop cfg e topic v w =
     (if iteration v < maxIterations cfg then
        (case loop_pass e topic v w of
           (Inl err, w') \<Rightarrow> (Inl err, w')
         | (Inr v', w') \<Rightarrow> run_loop cfg e topic v' w')
      else (Inr v, w))"
  by pat_completeness auto
termination
  apply (relation "measure (\<lambda>(cfg, e, topic, v, w). nat (maxIterations cfg - iteration v))")
   apply simp
  apply (auto simp: loop_pass_def split: prod.splits sum.splits)
  done

declare run_loop.simps [simp del]

text \<open>
  \<open>app.post('/start')\<close>. The request is \<open>Inl\<close> when \<open>c.req.json()\<close> throws, otherwise
  the parsed body.
\<close>

definition initial_vars :: "json option \<Rightarrow> loop_vars" where
  "initial_vars topic =
     \<lparr>currentData = JObj (mk_obj [(''topic'', topic), (''iteration'', Some (JNum 0))]),
      iteration = 0,
      finalResult = JNull\<rparr>"

text \<open>After the loop: \<open>return c.json(finalResult)\<close>, unless the loop threw.\<close>

definition respond :: "loop_vars thrown \<times> 'r world \<Rightarrow> response thrown \<times> 'r world" where
  "respond r =
     (case r of
        (Inl err, w') \<Rightarrow> (Inl err, w')
      | (Inr v, w') \<Rightarrow> (Inr \<lparr>status = 200, body = finalResult v\<rparr>, w'))"

definition start_try ::
  "ai_config \<Rightarrow> 'e env_scheme \<Rightarrow> json thrown \<Rightarrow> fetch_reply world \<Rightarrow> response thrown \<times> fetch_reply world" where
  "start_try cfg e req w =
     (case req of
        Inl err \<Rightarrow> (Inl err, w)
      | Inr b \<Rightarrow>
          (case get_prop b ''topic'' of
             Inl m \<Rightarrow> (Inl (new_error w m), w)
           | Inr topic \<Rightarrow>
               respond (run_loop cfg e topic (initial_vars topic) w)))"

definition start_catch :: "response thrown \<times> 'r world \<Rightarrow> response \<times> 'r world" where
  "start_catch r =
     (case r of
        (Inr resp, w') \<Rightarrow> (resp, w')
      | (Inl err, w') \<Rightarrow>
          (\<lparr>status = 500, body = JObj [(''error'', JStr (message err))]\<rparr>,
           emit (Log_error ''Error in /start endpoint:'' err) w'))"

definition start_with ::
  "ai_config \<Rightarrow> 'e env_scheme \<Rightarrow> json thrown \<Rightarrow> fetch_reply world \<Rightarrow> response \<times> fetch_reply world" where
  "start_with cfg e req w = start_catch (start_try cfg e req w)"

definition start :: "'e env_scheme \<Rightarrow> json thrown \<Rightarrow> fetch_reply world \<Rightarrow> response \<times> fetch_reply world" where
  "start e req w = start_with AI_CONFIG e req w"

section \<open>The second worker source (OpenAI SDK, configured iteration cap and threshold)\<close>

text \<open>
  Its \<open>interface Env\<close> extends the first one. \<open>wrangler.toml.example\<close> binds the
  variables to strings; the interface declares numbers; both are covered.
\<close>

datatype env_var = Text string | Number int

record env_sdk = env +
  OPENAI_MODEL :: "string option"
  MAX_ITERATIONS :: "env_var option"
  CONFIDENCE_THRESHOLD :: "env_var option"
  TIMEOUT_MS :: "env_var option"

fun var_to_string :: "env_var \<Rightarrow> string" where
  "var_to_string (Text s) = s"
| "var_to_string (Number n) = show_int n"

text \<open>
  \<open>parseInt\<close> without a radix: leading white space, a sign, \<open>0x\<close> for base sixteen, then
  the longest run of digits; \<open>NaN\<close> (\<open>None\<close>) when there is no digit.
\<close>

definition is_space :: "char \<Rightarrow> bool" where
  "is_space c = (c \<in> set [CHR '' '', CHR 0x09, CHR 0x0A, CHR 0x0B, CHR 0x0C, CHR 0x0D])"

definition digit_val :: "char \<Rightarrow> nat option" where
  "digit_val c =
     (let n = (of_char c :: nat) in
      if 48 \<le> n \<and> n \<le> 57 then Some (n - 48)
      else if 97 \<le> n \<and> n \<le> 122 then Some (n - 87)
      else if 65 \<le> n \<and> n \<le> 90 then Some (n - 55)
      else None)"

definition is_digit :: "nat \<Rightarrow> char \<Rightarrow> bool" where
  "is_digit radix c = (case digit_val c of None \<Rightarrow> False | Some d \<Rightarrow> d < radix)"

definition digits_value :: "nat \<Rightarrow> string \<Rightarrow> nat" where
  "digits_value radix ds = foldl (\<lambda>a c. a * radix + the (digit_val c)) 0 ds"

definition parseInt :: "string \<Rightarrow> int option" where
  "parseInt s =
     (let s1 = dropWhile is_space s;
          neg = (take 1 s1 = ''-'');
          s2 = (if take 1 s1 = ''-'' \<or> take 1 s1 = ''+'' then drop 1 s1 else s1);
          hex = (take 2 s2 = ''0x'' \<or> take 2 s2 = ''0X'');
          radix = (if hex then 16 else 10);
          s3 = (if hex then drop 2 s2 else s2);
          ds = takeWhile (is_digit radix) s3
      in if ds = [] then None
         else Some (if neg then - int (digits_value radix ds) else int (digits_value radix ds)))"

text \<open>\<open>s || d\<close> on strings.\<close>

definition or_default :: "string \<Rightarrow> string \<Rightarrow> string" where
  "or_default s d = (if s = [] then d else s)"

text \<open>
  This source's \<open>safe\<close> prints the message of the error, not the error.
\<close>

definition safe_sdk ::
  "('r world \<Rightarrow> 'a thrown \<times> 'r world) \<Rightarrow> string \<Rightarrow> 'r world \<Rightarrow> 'a thrown \<times> 'r world" where
  "safe_sdk operation ctx w =
     (case operation (emit (Log (ctx @ '' started'')) w) of
        (Inr result, w') \<Rightarrow> (Inr result, emit (Log (ctx @ '' completed'')) w')
      | (Inl err, w') \<Rightarrow> (Inl err, emit (Log_text (''Error in '' @ ctx @ '':'') (message err)) w'))"

text \<open>
  The outcome of \<open>openai.chat.completions.create\<close>: it resolves with a response object, or
  rejects with a thrown value, \<open>None\<close> when that value is no \<open>Error\<close>. One call of
  that method is one request of the model; what the library does inside a call is not part of
  this source.
\<close>

datatype sdk_reply = Sdk_rejects "js_error option" | Sdk_resolves json

text \<open>The \<open>AIResponse\<close> objects \<open>askAI\<close> returns, as they are serialised.\<close>

definition ai_content :: "json option \<Rightarrow> json" where
  "ai_content c = JObj [(''content'', if truthy c then the c else JStr [])]"

definition ai_failure :: "string \<Rightarrow> json" where
  "ai_failure m = JObj [(''content'', JStr []), (''error'', JStr m)]"

definition askAI_sdk_body ::
  "'e env_scheme \<Rightarrow> string \<Rightarrow> sdk_reply world \<Rightarrow> json thrown \<times> sdk_reply world" where
  "askAI_sdk_body e prompt w =
     (if \<not> key_configured e then (Inl (new_error w ''OpenAI API key not configured''), w)
      else
        (case call_provider prompt w of
           (Sdk_resolves resp, w1) \<Rightarrow>
             (case content_of resp of
                Inl m \<Rightarrow> (Inr (ai_failure m), w1)
              | Inr c \<Rightarrow> (Inr (ai_content c), w1))
         | (Sdk_rejects (Some err), w1) \<Rightarrow> (Inr (ai_failure (message err)), w1)
         | (Sdk_rejects None, w1) \<Rightarrow> (Inr (ai_failure ''Unknown error occurred''), w1)))"

definition askAI_sdk ::
  "string \<Rightarrow> 'e env_scheme \<Rightarrow> sdk_reply world \<Rightarrow> json thrown \<times> sdk_reply world" where
  "askAI_sdk prompt e w = safe_sdk (askAI_sdk_body e prompt) ''askAI'' w"

definition ResearchFetcherDO_sdk_body ::
  "'e env_scheme \<Rightarrow> json \<Rightarrow> sdk_reply world \<Rightarrow> response thrown \<times> sdk_reply world" where
  "ResearchFetcherDO_sdk_body e request w =
     (case destructure request of
        Inl m \<Rightarrow> (Inl (new_error w m), w)
      | Inr (topic, iter) \<Rightarrow>
          if \<not> truthy topic then
            (Inr \<lparr>status = 400, body = JObj [(''error'', JStr ''No topic provided'')]\<rparr>, w)
          else
            (case askAI_sdk (research_prompt topic) e w of
               (Inl err, w1) \<Rightarrow> (Inl err, w1)
             | (Inr research, w1) \<Rightarrow>
                 (Inr \<lparr>status = 200,
                       body = JObj (mk_obj [(''research'', Some research), (''iteration'', Some iter)])\<rparr>,
                  w1)))"

definition ResearchFetcherDO_sdk_fetch ::
  "'e env_scheme \<Rightarrow> json \<Rightarrow> sdk_reply world \<Rightarrow> response thrown \<times> sdk_reply world" where
  "ResearchFetcherDO_sdk_fetch e request w =
     safe_sdk (ResearchFetcherDO_sdk_body e request) ''ResearchFetcherDO'' w"

definition FactCheckerDO_sdk_try ::
  "'e env_scheme \<Rightarrow> json \<Rightarrow> sdk_reply world \<Rightarrow> response thrown \<times> sdk_reply world" where
  "FactCheckerDO_sdk_try e request w =
     (let w1 = emit (Log_json ''FactCheckerDO received:'' request) w;
          w2 = emit (Log ''Calling OpenAI for fact check...'') w1
      in case get_prop request ''research'' of
           Inl m \<Rightarrow> (Inl (new_error w2 m), w2)
         | Inr research \<Rightarrow>
             (case askAI_sdk (factcheck_prompt research) e w2 of
                (Inl err, w3) \<Rightarrow> (Inl err, w3)
              | (Inr refined, w3) \<Rightarrow>
                  (Inr \<lparr>status = 200,
                        body = JObj (mk_obj [(''research'', Some refined),
                          (''iteration'', Some (or_zero_plus_one (opt_prop (Some request) ''iteration'')))])\<rparr>,
                   emit (Log ''Fact check received from OpenAI'') w3)))"

definition FactCheckerDO_sdk_fetch ::
  "'e env_scheme \<Rightarrow> json \<Rightarrow> sdk_reply world \<Rightarrow> response \<times> sdk_reply world" where
  "FactCheckerDO_sdk_fetch e request w =
     (case FactCheckerDO_sdk_try e request w of
        (Inr resp, w') \<Rightarrow> (resp, w')
      | (Inl err, w') \<Rightarrow> (error_payload err, emit (Log_error ''Error in FactCheckerDO:'' err) w'))"

text \<open>
  The configuration of a run. \<open>parseFloat\<close> and the comparison \<open>x >= threshold\<close> of a
  defined \<open>x\<close> work on floating-point numbers and are parameters \<open>pf\<close> and \<open>ge\<close> of the
  model; \<open>undefined >= threshold\<close> is \<open>false\<close> for every threshold.
\<close>

record 'f config =
  cfg_maxIterations :: "int option"
  cfg_confidenceThreshold :: 'f

definition read_config :: "(string \<Rightarrow> 'f) \<Rightarrow> 'e env_sdk_scheme \<Rightarrow> string + 'f config" where
  "read_config pf e =
     (case MAX_ITERATIONS e of
        None \<Rightarrow> Inl (read_undefined ''toString'')
      | Some mi \<Rightarrow>
          (case CONFIDENCE_THRESHOLD e of
             None \<Rightarrow> Inl (read_undefined ''toString'')
           | Some ct \<Rightarrow>
               Inr \<lparr>cfg_maxIterations = parseInt (or_default (var_to_string mi) ''5''),
                    cfg_confidenceThreshold = pf (or_default (var_to_string ct) ''0.9'')\<rparr>))"

definition confidence_reached :: "(json \<Rightarrow> 'f \<Rightarrow> bool) \<Rightarrow> json \<Rightarrow> 'f \<Rightarrow> bool" where
  "confidence_reached ge fr threshold =
     (case opt_prop (Some fr) ''confidence'' of
        None \<Rightarrow> False
      | Some c \<Rightarrow> ge c threshold)"

text \<open>\<open>iteration < config.maxIterations\<close>: false when the cap is \<open>NaN\<close>.\<close>

definition below_cap :: "int \<Rightarrow> int option \<Rightarrow> bool" where
  "below_cap i cap = (case cap of None \<Rightarrow> False | Some n \<Rightarrow> i < n)"

text \<open>One pass of the loop body: it ends in \<open>break\<close> or at the end of the body.\<close>

datatype 'a flow = Break 'a | Continue 'a

definition loop_pass_sdk ::
  "(json \<Rightarrow> 'f \<Rightarrow> bool) \<Rightarrow> 'f config \<Rightarrow> 'e env_scheme \<Rightarrow> json option \<Rightarrow> loop_vars \<Rightarrow> sdk_reply world
     \<Rightarrow> (loop_vars flow) thrown \<times> sdk_reply world" where
  "loop_pass_sdk ge cfg e topic v w =
     (case ResearchFetcherDO_sdk_fetch e (currentData v) w of
        (Inl err, w1) \<Rightarrow> (Inl err, w1)
      | (Inr researchResponse, w1) \<Rightarrow>
          (case FactCheckerDO_sdk_fetch e (body researchResponse) w1 of
             (factCheckResponse, w2) \<Rightarrow>
               (case get_prop (body factCheckResponse) ''research'' of
                  Inl m \<Rightarrow> (Inl (new_error w2 m), w2)
                | Inr r \<Rightarrow>
                    (let v' = \<lparr>currentData = JObj (mk_obj [(''topic'', topic), (''research'', r),
                                  (''iteration'', Some (JNum (iteration v + 1)))]),
                               iteration = iteration v,
                               finalResult = body factCheckResponse\<rparr>
                     in if confidence_reached ge (body factCheckResponse) (cfg_confidenceThreshold cfg)
                        then (Inr (Break v'), w2)
                        else (Inr (Continue (v'\<lparr>iteration := iteration v + 1\<rparr>)), w2)))))"

function run_loop_sdk ::
  "(json \<Rightarrow> 'f \<Rightarrow> bool) \<Rightarrow> 'f config \<Rightarrow> 'e env_scheme \<Rightarrow> json option \<Rightarrow> loop_vars \<Rightarrow> sdk_reply world
     \<Rightarrow> loop_vars thrown \<times> sdk_reply world" where
  "run_loop_sdk ge cfg e topic v w =
     (if below_cap (iteration v) (cfg_maxIterations cfg) then
        (case loop_pass_sdk ge cfg e topic v w of
           (Inl err, w') \<Rightarrow> (Inl err, w')
         | (Inr (Break v'), w') \<Rightarrow> (Inr v', w')
         | (Inr (Continue v'), w') \<Rightarrow> run_loop_sdk ge cfg e topic v' w')
      else (Inr v, w))"
  by pat_completeness auto
termination
  apply (relation "measure (\<lambda>(ge, cfg, e, topic, v, w).
            nat (the (cfg_maxIterations cfg) - iteration v))")
   apply simp
  apply (auto simp: loop_pass_sdk_def below_cap_def Let_def
              split: prod.splits sum.splits option.splits if_splits)
  done

declare run_loop_sdk.simps [simp del]

definition start_sdk_try ::
  "(string \<Rightarrow> 'f) \<Rightarrow> (json \<Rightarrow> 'f \<Rightarrow> bool) \<Rightarrow> 'e env_sdk_scheme \<Rightarrow> json thrown \<Rightarrow> sdk_reply world
     \<Rightarrow> response thrown \<times> sdk_reply world" where
  "start_sdk_try pf ge e req w =
     (case req of
        Inl err \<Rightarrow> (Inl err, w)
      | Inr b \<Rightarrow>
          (case get_prop b ''topic'' of
             Inl m \<Rightarrow> (Inl (new_error w m), w)
           | Inr topic \<Rightarrow>
               (case read_config pf e of
                  Inl m \<Rightarrow> (Inl (new_error w m), w)
                | Inr cfg \<Rightarrow>
                    respond (run_loop_sdk ge cfg e topic (initial_vars topic) w))))"

definition start_sdk ::
  "(string \<Rightarrow> 'f) \<Rightarrow> (json \<Rightarrow> 'f \<Rightarrow> bool) \<Rightarrow> 'e env_sdk_scheme \<Rightarrow> json thrown \<Rightarrow> sdk_reply world
     \<Rightarrow> response \<times> sdk_reply world" where
  "start_sdk pf ge e req w = start_catch (start_sdk_try pf ge e req w)"

section \<open>Observing a run\<close>

text \<open>
  The stages of a run are counted on the console, where the workers themselves announce them:
  a call of \<open>ResearchFetcherDO.fetch\<close> by the line \<open>ResearchFetcherDO started\<close> of
  \<open>safe\<close>; a call of \<open>FactCheckerDO.fetch\<close> by its line \<open>FactCheckerDO received:\<close>;
  a fact-check whose completion succeeded by \<open>Fact check received from OpenAI\<close>, one that
  ended in the \<open>catch\<close> by \<open>Error in FactCheckerDO:\<close>. The requests to the provider are
  the entries of \<open>sent\<close>.
\<close>

definition count_log :: "(log_entry \<Rightarrow> bool) \<Rightarrow> 'r world \<Rightarrow> nat" where
  "count_log P w = length (filter P (console w))"

fun is_research_started :: "log_entry \<Rightarrow> bool" where
  "is_research_started (Log s) = (s = ''ResearchFetcherDO started'')"
| "is_research_started x = False"

fun is_factcheck_received :: "log_entry \<Rightarrow> bool" where
  "is_factcheck_received (Log_json s j) = (s = ''FactCheckerDO received:'')"
| "is_factcheck_received x = False"

fun is_factcheck_completed :: "log_entry \<Rightarrow> bool" where
  "is_factcheck_completed (Log s) = (s = ''Fact check received from OpenAI'')"
| "is_factcheck_completed x = False"

fun is_factcheck_failed :: "log_entry \<Rightarrow> bool" where
  "is_factcheck_failed (Log_error s err) = (s = ''Error in FactCheckerDO:'')"
| "is_factcheck_failed x = False"

definition research_calls :: "'r world \<Rightarrow> nat" where
  "research_calls w = count_log is_research_started w"

definition factcheck_calls :: "'r world \<Rightarrow> nat" where
  "factcheck_calls w = count_log is_factcheck_received w"

definition factcheck_completed :: "'r world \<Rightarrow> nat" where
  "factcheck_completed w = count_log is_factcheck_completed w"

definition factcheck_failed :: "'r world \<Rightarrow> nat" where
  "factcheck_failed w = count_log is_factcheck_failed w"

text \<open>A world in which nothing has happened yet, for a given provider.\<close>

definition fresh_world :: "(nat \<Rightarrow> string \<Rightarrow> 'r) \<Rightarrow> 'r world" where
  "fresh_world p = \<lparr>provider = p, stack_of = (\<lambda>m. ''Error: '' @ m), sent = [], console = []\<rparr>"

text \<open>
  Bookkeeping for the proofs: how much the counters grew between two worlds, and that a
  payload carries a given iteration number.
\<close>

definition same_counts :: "'r world \<Rightarrow> 'r world \<Rightarrow> nat \<Rightarrow> nat \<Rightarrow> nat \<Rightarrow> nat \<Rightarrow> bool" where
  "same_counts w w' a b c d \<longleftrightarrow>
     research_calls w' = research_calls w + a \<and> factcheck_calls w' = factcheck_calls w + b \<and>
     factcheck_completed w' = factcheck_completed w + c \<and>
     factcheck_failed w' = factcheck_failed w + d \<and>
     provider w' = provider w \<and> stack_of w' = stack_of w"

definition carries_iteration :: "json \<Rightarrow> int \<Rightarrow> bool" where
  "carries_iteration d i \<longleftrightarrow> opt_prop (Some d) ''iteration'' = Some (JNum i)"


subsection \<open>Concrete runs\<close>

definition sample_env :: env where
  "sample_env = \<lparr>OPENAI_API_KEY = Some ''sk-test''\<rparr>"

definition sample_topic :: "json option" where
  "sample_topic = Some (JStr ''quantum computing'')"

definition sample_request :: "json thrown" where
  "sample_request = Inr (JObj [(''topic'', JStr ''quantum computing'')])"

text \<open>A successful chat completion with the given text, and a rejected request.\<close>

definition ok_reply :: "string \<Rightarrow> fetch_reply" where
  "ok_reply text =
     Http True (JObj [(''choices'', JArr [JObj [(''message'', JObj [(''content'', JStr text)])]])])"

definition rate_limited :: fetch_reply where
  "rate_limited = Http False (JObj [(''error'', JObj [(''message'', JStr ''rate limited'')])])"

text \<open>
  A provider that always succeeds, and one that rejects exactly the request numbered \<open>n\<close>
  (the first request of a run has number \<open>0\<close>).
\<close>

definition always_ok :: "nat \<Rightarrow> string \<Rightarrow> fetch_reply" where
  "always_ok k prompt = ok_reply (''re: '' @ prompt)"

definition fails_at :: "nat \<Rightarrow> nat \<Rightarrow> string \<Rightarrow> fetch_reply" where
  "fails_at n k prompt = (if k = n then rate_limited else ok_reply (''re: '' @ prompt))"

definition sample_body :: json where
  "sample_body = JObj [(''topic'', JStr ''quantum computing'')]"

definition rate_limited_error :: js_error where
  "rate_limited_error = \<lparr>message = ''OpenAI API: rate limited'', stack = ''Error: OpenAI API: rate limited''\<rparr>"

text \<open>A provider that cannot be reached, and an environment without credential.\<close>

definition network_down :: "nat \<Rightarrow> string \<Rightarrow> fetch_reply" where
  "network_down k prompt = Rejects \<lparr>message = ''fetch failed'', stack = ''TypeError: fetch failed''\<rparr>"

definition no_key_env :: env where
  "no_key_env = \<lparr>OPENAI_API_KEY = None\<rparr>"

text \<open>The payload a later pass hands to the research stage: it carries earlier research.\<close>

definition refined_request :: json where
  "refined_request =
     JObj [(''topic'', JStr ''quantum computing''), (''research'', JStr ''an earlier draft''),
           (''iteration'', JNum 0)]"

text \<open>The payload a research stage hands to the fact-check stage.\<close>

definition draft_payload :: json where
  "draft_payload = JObj [(''research'', JStr ''a first draft''), (''iteration'', JNum 0)]"

text \<open>A configuration of the first source with the cap \<open>0\<close> in place of its constant \<open>2\<close>.\<close>

definition zero_cap :: ai_config where
  "zero_cap = \<lparr>model = ''gpt-4o-mini'', maxIterations = 0\<rparr>"

text \<open>
  The same for the second source: its providers, its environment for a given cap, and
  stand-ins for the floating-point parameters.
\<close>

definition completion :: "string \<Rightarrow> json" where
  "completion text = JObj [(''choices'', JArr [JObj [(''message'', JObj [(''content'', JStr text)])]])]"

definition sdk_always_ok :: "nat \<Rightarrow> string \<Rightarrow> sdk_reply" where
  "sdk_always_ok k prompt = Sdk_resolves (completion (''re: '' @ prompt))"

definition sdk_fails_at :: "nat \<Rightarrow> nat \<Rightarrow> string \<Rightarrow> sdk_reply" where
  "sdk_fails_at n k prompt =
     (if k = n then Sdk_rejects (Some \<lparr>message = ''rate limited'', stack = ''Error: rate limited''\<rparr>)
      else Sdk_resolves (completion (''re: '' @ prompt)))"

definition sample_env_sdk :: "string \<Rightarrow> env_sdk" where
  "sample_env_sdk cap =
     \<lparr>OPENAI_API_KEY = Some ''sk-test'', OPENAI_MODEL = Some ''gpt-4o-mini'',
      MAX_ITERATIONS = Some (Text cap), CONFIDENCE_THRESHOLD = Some (Text ''0.9''),
      TIMEOUT_MS = Some (Text ''30000'')\<rparr>"

definition no_float :: "string \<Rightarrow> unit" where
  "no_float s = ()"

definition never_ge :: "json \<Rightarrow> unit \<Rightarrow> bool" where
  "never_ge j u = False"


section \<open>Properties of the orchestration\<close>

subsection \<open>Counters and payloads, stage by stage\<close>

lemma count_log_emit [simp]: "count_log P (emit x w) = count_log P w + (if P x then 1 else 0)"
  by (simp add: count_log_def emit_def)

lemma count_log_sent [simp]: "count_log P (w\<lparr>sent := xs\<rparr>) = count_log P w"
  by (simp add: count_log_def)

lemma emit_fields [simp]:
  "provider (emit x w) = provider w" "stack_of (emit x w) = stack_of w" "sent (emit x w) = sent w"
  by (simp_all add: emit_def)

lemmas counters = research_calls_def factcheck_calls_def factcheck_completed_def factcheck_failed_def

lemma askAI_counts:
  "askAI p e w = (r, w') \<Longrightarrow> same_counts w w' 0 0 0 0"
  by (auto simp: askAI_def safe_def askAI_body_def call_provider_def counters same_counts_def
           split: prod.splits sum.splits if_splits fetch_reply.splits)

lemma askAI_sent:
  "askAI p e w = (r, w') \<Longrightarrow> sent w' = (if key_configured e then sent w @ [p] else sent w)"
  by (auto simp: askAI_def safe_def askAI_body_def call_provider_def 
           split: prod.splits sum.splits if_splits fetch_reply.splits)

lemma research_counts:
  "ResearchFetcherDO_fetch e rq w = (r, w') \<Longrightarrow> same_counts w w' 1 0 0 0"
  by (auto simp: ResearchFetcherDO_fetch_def safe_def ResearchFetcherDO_body_def counters same_counts_def
           split: prod.splits sum.splits if_splits dest!: askAI_counts)

lemma factcheck_counts:
  "FactCheckerDO_fetch e rq w = (r, w') \<Longrightarrow>
     (status r = 200 \<and> same_counts w w' 0 1 1 0) \<or> (status r = 500 \<and> same_counts w w' 0 1 0 1)"
  by (auto simp: FactCheckerDO_fetch_def FactCheckerDO_try_def error_payload_def Let_def counters same_counts_def
           split: prod.splits sum.splits if_splits dest!: askAI_counts)

lemma same_counts_trans:
  "same_counts w w1 a b c d \<Longrightarrow> same_counts w1 w2 a' b' c' d' \<Longrightarrow>
   same_counts w w2 (a + a') (b + b') (c + c') (d + d')"
  by (simp add: same_counts_def)

lemma or_zero_plus_one_num [simp]: "or_zero_plus_one (Some (JNum i)) = JNum (i + 1)"
  by (simp add: or_zero_plus_one_def)

lemma map_of_mk_obj_Cons [simp]:
  "map_of (mk_obj ((k, v) # kvs)) k' = (if k = k' \<and> v \<noteq> None then v else map_of (mk_obj kvs) k')"
  by (cases v) auto

lemma carries_iteration_obj:
  "carries_iteration d i \<Longrightarrow> \<exists>kvs. d = JObj kvs \<and> map_of kvs ''iteration'' = Some (JNum i)"
  by (cases d) (simp_all add: carries_iteration_def)

lemma research_body:
  "ResearchFetcherDO_fetch e rq w = (Inr resp, w') \<Longrightarrow> carries_iteration rq i \<Longrightarrow>
   carries_iteration (body resp) i"
  by (auto simp: ResearchFetcherDO_fetch_def safe_def ResearchFetcherDO_body_def destructure_def
                 carries_iteration_def simp del: mk_obj.simps(2,3)
           split: prod.splits sum.splits if_splits option.splits
           dest!: carries_iteration_obj[unfolded carries_iteration_def])

lemma factcheck_body:
  "FactCheckerDO_fetch e rq w = (resp, w') \<Longrightarrow> carries_iteration rq i \<Longrightarrow>
   (status resp = 200 \<and> carries_iteration (body resp) (i + 1)) \<or>
   (status resp = 500 \<and> (\<exists>err. resp = error_payload err))"
  by (auto simp: FactCheckerDO_fetch_def FactCheckerDO_try_def Let_def
                 carries_iteration_def error_payload_def simp del: mk_obj.simps(2,3)
           split: prod.splits sum.splits if_splits option.splits
           dest!: carries_iteration_obj[unfolded carries_iteration_def])


lemma loop_pass_ok:
  assumes "loop_pass e t v w = (Inr v', w')" "carries_iteration (currentData v) (iteration v)"
  shows "iteration v' = iteration v + 1 \<and> carries_iteration (currentData v') (iteration v') \<and>
    research_calls w' = research_calls w + 1 \<and> factcheck_calls w' = factcheck_calls w + 1 \<and>
    factcheck_completed w' + factcheck_failed w' = factcheck_completed w + factcheck_failed w + 1 \<and>
    (carries_iteration (finalResult v') (iteration v') \<or> (\<exists>err. finalResult v' = body (error_payload err)))"
proof -
  from assms(1) obtain rr w1 fr where
    r: "ResearchFetcherDO_fetch e (currentData v) w = (Inr rr, w1)" and
    f: "FactCheckerDO_fetch e (body rr) w1 = (fr, w')" and
    v': "iteration v' = iteration v + 1" "finalResult v' = body fr"
       "carries_iteration (currentData v') (iteration v + 1)"
    by (auto simp: loop_pass_def carries_iteration_def simp del: mk_obj.simps(2,3)
             split: prod.splits sum.splits)
  from research_body[OF r assms(2)] have "carries_iteration (body rr) (iteration v)" .
  from factcheck_body[OF f this] have
    "carries_iteration (finalResult v') (iteration v') \<or> (\<exists>err. finalResult v' = body (error_payload err))"
    using v' by auto
  moreover from factcheck_counts[OF f] research_counts[OF r]
  have "research_calls w' = research_calls w + 1 \<and> factcheck_calls w' = factcheck_calls w + 1 \<and>
    factcheck_completed w' + factcheck_failed w' = factcheck_completed w + factcheck_failed w + 1"
    by (auto simp: same_counts_def)
  ultimately show ?thesis using v' by simp
qed

lemma loop_pass_throws:
  assumes "loop_pass e t v w = (Inl err, w')"
  shows "same_counts w w' 1 0 0 0"
  using assms
  by (auto simp: loop_pass_def FactCheckerDO_fetch_def FactCheckerDO_try_def error_payload_def Let_def
           split: prod.splits sum.splits dest: research_counts)

lemma run_loop_ok:
  "run_loop cfg e t v w = (Inr v', w') \<Longrightarrow>
   carries_iteration (currentData v) (iteration v) \<Longrightarrow>
   iteration v \<le> iteration v' \<and>
   (iteration v < maxIterations cfg \<longrightarrow> iteration v' = maxIterations cfg) \<and>
   (maxIterations cfg \<le> iteration v \<longrightarrow> v' = v \<and> w' = w) \<and>
   research_calls w' = research_calls w + nat (iteration v' - iteration v) \<and>
   factcheck_calls w' = factcheck_calls w + nat (iteration v' - iteration v) \<and>
   factcheck_completed w' + factcheck_failed w' =
     factcheck_completed w + factcheck_failed w + nat (iteration v' - iteration v) \<and>
   (iteration v < maxIterations cfg \<longrightarrow>
      carries_iteration (finalResult v') (iteration v') \<or> (\<exists>err. finalResult v' = body (error_payload err)))"
proof (induction cfg e t v w rule: run_loop.induct)
  case (1 cfg e t v w)
  show ?case
  proof (cases "iteration v < maxIterations cfg")
    case False
    with "1.prems" show ?thesis by (simp add: run_loop.simps)
  next
    case True
    with "1.prems"(1) obtain v1 w1 where
      p: "loop_pass e t v w = (Inr v1, w1)" and r: "run_loop cfg e t v1 w1 = (Inr v', w')"
      by (auto simp: run_loop.simps[of cfg e t v w] split: prod.splits sum.splits)
    note a = loop_pass_ok[OF p "1.prems"(2)]
    from a have c1: "carries_iteration (currentData v1) (iteration v1)" by blast
    note ih = "1.IH"[OF True p[symmetric] refl r c1]
    show ?thesis
    proof (cases "iteration v1 < maxIterations cfg")
      case True
      with ih a show ?thesis by auto
    next
      case False
      with ih have "v' = v1" "w' = w1" by auto
      with a True False show ?thesis by auto
    qed
  qed
qed

lemma run_loop_throws:
  "run_loop cfg e t v w = (Inl err, w') \<Longrightarrow>
   carries_iteration (currentData v) (iteration v) \<Longrightarrow>
   iteration v < maxIterations cfg \<and>
   research_calls w' \<le> research_calls w + nat (maxIterations cfg - iteration v) \<and>
   factcheck_calls w' < factcheck_calls w + nat (maxIterations cfg - iteration v)"
proof (induction cfg e t v w rule: run_loop.induct)
  case (1 cfg e t v w)
  from "1.prems"(1) have lt: "iteration v < maxIterations cfg"
    by (auto simp: run_loop.simps[of cfg e t v w] split: if_splits)
  show ?case
  proof (cases "loop_pass e t v w")
    case (Pair r w1)
    show ?thesis
    proof (cases r)
      case (Inl err1)
      with Pair "1.prems"(1) lt have "w' = w1"
        by (simp add: run_loop.simps[of cfg e t v w])
      with loop_pass_throws[of e t v w err1 w1] Pair Inl lt show ?thesis
        by (auto simp: same_counts_def)
    next
      case (Inr v1)
      with Pair "1.prems"(1) lt have r: "run_loop cfg e t v1 w1 = (Inl err, w')"
        by (simp add: run_loop.simps[of cfg e t v w])
      from Pair Inr have p: "loop_pass e t v w = (Inr v1, w1)" by simp
      note a = loop_pass_ok[OF p "1.prems"(2)]
      from a have c1: "carries_iteration (currentData v1) (iteration v1)" by blast
      note ih = "1.IH"[OF lt p[symmetric] refl r c1]
      with a lt show ?thesis by auto
    qed
  qed
qed

lemma start_with_cases:
  assumes "start_with cfg e req w = (resp, w')"
  shows "(\<exists>err w1. start_try cfg e req w = (Inl err, w1) \<and> w' = emit (Log_error ''Error in /start endpoint:'' err) w1 \<and>
            resp = \<lparr>status = 500, body = JObj [(''error'', JStr (message err))]\<rparr>) \<or>
         start_try cfg e req w = (Inr resp, w')"
  using assms by (auto simp: start_with_def start_catch_def split: prod.splits sum.splits)

lemma carries_initial: "carries_iteration (currentData (initial_vars t)) (iteration (initial_vars t))"
  by (simp add: carries_iteration_def initial_vars_def del: mk_obj.simps(2,3))

lemma start_try_ok:
  assumes "start_try cfg e req w = (Inr resp, w')"
  shows "\<exists>b t v'. req = Inr b \<and> get_prop b ''topic'' = Inr t \<and>
           run_loop cfg e t (initial_vars t) w = (Inr v', w') \<and> resp = \<lparr>status = 200, body = finalResult v'\<rparr>"
  using assms by (auto simp: start_try_def respond_def split: prod.splits sum.splits)

lemma start_try_throws:
  assumes "start_try cfg e req w = (Inl err, w')"
  shows "w' = w \<or> (\<exists>b t. req = Inr b \<and> get_prop b ''topic'' = Inr t \<and>
           run_loop cfg e t (initial_vars t) w = (Inl err, w'))"
  using assms by (auto simp: start_try_def respond_def split: prod.splits sum.splits)

lemma error_payload_no_iteration: "opt_prop (Some (body (error_payload err))) ''iteration'' = None"
  by (simp add: error_payload_def)

subsection \<open>The iteration cap\<close>

text \<open>
  What holds in every run of \<open>/start\<close>, whatever the request, the environment and the
  provider, with \<open>maxIterations = N\<close>: the research stage is called at most \<open>N\<close> times and
  the fact-check stage at most \<open>N\<close> times; every pass of the loop body that reaches its end
  has increased the loop's \<open>iteration\<close> by exactly one; and when the returned payload
  carries an \<open>iteration\<close>, that value is the number of loop passes of the run, each with
  one research and one fact-check call, and it does not exceed \<open>N\<close>. The fact-check calls
  counted here are those whose completion succeeded and those that ended in the \<open>catch\<close> of
  \<open>FactCheckerDO.fetch\<close>, together.
\<close>

theorem start_round_trips:
  assumes "start_with cfg e req w = (resp, w')"
  shows "research_calls w' \<le> research_calls w + nat (maxIterations cfg) \<and>
         factcheck_calls w' \<le> factcheck_calls w + nat (maxIterations cfg) \<and>
         (\<forall>t v u v' u'. loop_pass e t v u = (Inr v', u') \<longrightarrow> iteration v' = iteration v + 1) \<and>
         (\<forall>i. opt_prop (Some (body resp)) ''iteration'' = Some i \<longrightarrow>
            i = JNum (int (factcheck_calls w' - factcheck_calls w)) \<and>
            int (factcheck_calls w' - factcheck_calls w) \<le> maxIterations cfg \<and>
            research_calls w' - research_calls w = factcheck_calls w' - factcheck_calls w \<and>
            factcheck_calls w' - factcheck_calls w =
              (factcheck_completed w' + factcheck_failed w') - (factcheck_completed w + factcheck_failed w))"
proof -
  have step: "\<forall>t v u v' u'. loop_pass e t v u = (Inr v', u') \<longrightarrow> iteration v' = iteration v + 1"
    by (auto simp: loop_pass_def split: prod.splits sum.splits)
  from start_with_cases[OF assms] show ?thesis
  proof
    assume "\<exists>err w1. start_try cfg e req w = (Inl err, w1) \<and>
              w' = emit (Log_error ''Error in /start endpoint:'' err) w1 \<and>
              resp = \<lparr>status = 500, body = JObj [(''error'', JStr (message err))]\<rparr>"
    then obtain err w1 where t: "start_try cfg e req w = (Inl err, w1)"
      and w': "w' = emit (Log_error ''Error in /start endpoint:'' err) w1"
      and resp: "resp = \<lparr>status = 500, body = JObj [(''error'', JStr (message err))]\<rparr>" by blast
    have eq: "research_calls w' = research_calls w1" "factcheck_calls w' = factcheck_calls w1"
      by (simp_all add: w' counters)
    from start_try_throws[OF t] have
      "research_calls w1 \<le> research_calls w + nat (maxIterations cfg) \<and>
       factcheck_calls w1 \<le> factcheck_calls w + nat (maxIterations cfg)"
    proof
      assume "w1 = w" then show ?thesis by simp
    next
      assume "\<exists>b t. req = Inr b \<and> get_prop b ''topic'' = Inr t \<and>
           run_loop cfg e t (initial_vars t) w = (Inl err, w1)"
      then obtain t where "run_loop cfg e t (initial_vars t) w = (Inl err, w1)" by blast
      from run_loop_throws[OF this carries_initial] show ?thesis
        by (simp add: initial_vars_def)
    qed
    with eq resp step show ?thesis by simp
  next
    assume "start_try cfg e req w = (Inr resp, w')"
    from start_try_ok[OF this] obtain t v' where
      r: "run_loop cfg e t (initial_vars t) w = (Inr v', w')" and resp: "body resp = finalResult v'"
      by auto
    note a = run_loop_ok[OF r carries_initial]
    have i0: "iteration (initial_vars t) = 0" "finalResult (initial_vars t) = JNull"
      by (simp_all add: initial_vars_def)
    show ?thesis
    proof (cases "0 < maxIterations cfg")
      case True
      with a i0 have it: "iteration v' = maxIterations cfg" by auto
      from a True i0 have fr: "carries_iteration (finalResult v') (iteration v') \<or>
          (\<exists>err. finalResult v' = body (error_payload err))" by auto
      have "\<forall>i. opt_prop (Some (body resp)) ''iteration'' = Some i \<longrightarrow> i = JNum (maxIterations cfg)"
        using fr it resp by (auto simp: carries_iteration_def error_payload_no_iteration)
      with a i0 it True step show ?thesis by auto
    next
      case False
      with a i0 have "v' = initial_vars t" "w' = w" by auto
      with resp i0 step show ?thesis by simp
    qed
  qed
qed

theorem start_round_trips_witness:
  "opt_prop (Some (body (fst (start_with AI_CONFIG sample_env sample_request (fresh_world always_ok)))))
      ''iteration'' = Some (JNum 2) \<and>
   JNum 2 = JNum (int (factcheck_calls (snd (start_with AI_CONFIG sample_env sample_request (fresh_world always_ok)))
                   - factcheck_calls (fresh_world always_ok))) \<and>
   research_calls (snd (start_with AI_CONFIG sample_env sample_request (fresh_world always_ok)))
     \<le> research_calls (fresh_world always_ok) + nat (maxIterations AI_CONFIG) \<and>
   \<not> isl (fst (loop_pass sample_env sample_topic (initial_vars sample_topic) (fresh_world always_ok))) \<and>
   iteration (projr (fst (loop_pass sample_env sample_topic (initial_vars sample_topic) (fresh_world always_ok))))
     = iteration (initial_vars sample_topic) + 1"
proof -
  let ?R = "start_with AI_CONFIG sample_env sample_request (fresh_world always_ok)"
  let ?L = "loop_pass sample_env sample_topic (initial_vars sample_topic) (fresh_world always_ok)"
  have run: "?R = (fst ?R, snd ?R)" by simp
  have it: "opt_prop (Some (body (fst ?R))) ''iteration'' = Some (JNum 2)" by code_simp
  have ok: "\<not> isl (fst ?L)" by code_simp
  then have pass: "?L = (Inr (projr (fst ?L)), snd ?L)"
    by (cases "fst ?L") (auto simp: prod_eq_iff)
  from start_round_trips[OF run] it pass ok show ?thesis by blast
qed

text \<open>
  C1. The claim asks that the returned \<open>iteration\<close> be the number of completed fact-check
  passes. The bounds hold (see above), the count does not: when the first fact-check call of a
  run is rejected and the second one succeeds, one fact-check pass has completed and one has
  failed, and the run returns \<open>iteration = 2\<close>.
\<close>

theorem returned_iteration_counts_failed_pass:
  "opt_prop (Some (body (fst (start sample_env sample_request (fresh_world (fails_at 1))))))
      ''iteration'' = Some (JNum 2) \<and>
   factcheck_completed (snd (start sample_env sample_request (fresh_world (fails_at 1)))) = 1 \<and>
   factcheck_failed (snd (start sample_env sample_request (fresh_world (fails_at 1)))) = 1"
  by code_simp

subsection \<open>A failing research call\<close>

lemma askAI_console_independent:
  "fst (askAI p e (emit x w)) = fst (askAI p e w)"
  by (auto simp: askAI_def safe_def askAI_body_def call_provider_def new_error_def
           split: prod.splits sum.splits if_splits fetch_reply.splits)

lemma run_loop_first_pass_throws:
  assumes "iteration v < maxIterations cfg" "loop_pass e t v w = (Inl err, w')"
  shows "run_loop cfg e t v w = (Inl err, w')"
  using assms by (simp add: run_loop.simps[of cfg e t v w])

text \<open>
  C4. When the first research call of a run fails in \<open>askAI\<close> (missing credential, unreachable
  provider, rejected request, malformed answer), the run ends with status 500 and a body
  \<open>{error: m}\<close> where \<open>m\<close> is the message of exactly that error; the research stage was
  entered once, the fact-check stage never, and no request beyond the research prompt was sent.
\<close>

theorem first_research_failure:
  assumes topic: "get_prop b ''topic'' = Inr t" "truthy t"
    and cap: "0 < maxIterations cfg"
    and fails: "fst (askAI (research_prompt t) e w) = Inl err"
    and run: "start_with cfg e (Inr b) w = (resp, w')"
  shows "resp = \<lparr>status = 500, body = JObj [(''error'', JStr (message err))]\<rparr> \<and>
         factcheck_calls w' = factcheck_calls w \<and>
         research_calls w' = research_calls w + 1 \<and>
         sent w' = (if key_configured e then sent w @ [research_prompt t] else sent w)"
proof -
  let ?w0 = "emit (Log ''ResearchFetcherDO started'') w"
  obtain w1 where ask: "askAI (research_prompt t) e ?w0 = (Inl err, w1)"
    using fails askAI_console_independent[of "research_prompt t" e "Log ''ResearchFetcherDO started''" w]
    by (cases "askAI (research_prompt t) e ?w0") simp
  let ?w2 = "emit (Log_error ''Error in ResearchFetcherDO:'' err) w1"
  have cd: "destructure (currentData (initial_vars t)) = Inr (t, JNum 0)"
    using topic(2) by (cases t) (simp_all add: destructure_def initial_vars_def)
  have rf: "ResearchFetcherDO_fetch e (currentData (initial_vars t)) w = (Inl err, ?w2)"
    using ask cd topic(2) by (simp add: ResearchFetcherDO_fetch_def safe_def ResearchFetcherDO_body_def)
  then have lp: "loop_pass e t (initial_vars t) w = (Inl err, ?w2)"
    by (simp add: loop_pass_def)
  have "run_loop cfg e t (initial_vars t) w = (Inl err, ?w2)"
    using cap lp by (intro run_loop_first_pass_throws) (simp_all add: initial_vars_def)
  then have "start_with cfg e (Inr b) w =
      (\<lparr>status = 500, body = JObj [(''error'', JStr (message err))]\<rparr>,
       emit (Log_error ''Error in /start endpoint:'' err) ?w2)"
    using topic(1) by (simp add: start_with_def start_try_def respond_def start_catch_def)
  with run have resp: "resp = \<lparr>status = 500, body = JObj [(''error'', JStr (message err))]\<rparr>"
    and w': "w' = emit (Log_error ''Error in /start endpoint:'' err) ?w2" by simp_all
  from askAI_counts[OF ask] askAI_sent[OF ask] resp w' show ?thesis
    by (simp add: same_counts_def counters)
qed

theorem first_research_failure_witness:
  "fst (start_with AI_CONFIG sample_env (Inr sample_body) (fresh_world (fails_at 0))) =
     \<lparr>status = 500, body = JObj [(''error'', JStr ''OpenAI API: rate limited'')]\<rparr> \<and>
   factcheck_calls (snd (start_with AI_CONFIG sample_env (Inr sample_body) (fresh_world (fails_at 0)))) = 0 \<and>
   sent (snd (start_with AI_CONFIG sample_env (Inr sample_body) (fresh_world (fails_at 0)))) =
     [''Research this topic: quantum computing'']"
proof -
  let ?w = "fresh_world (fails_at 0)"
  let ?R = "start_with AI_CONFIG sample_env (Inr sample_body) ?w"
  have 1: "get_prop sample_body ''topic'' = Inr sample_topic" by code_simp
  have 2: "truthy sample_topic" by code_simp
  have 3: "0 < maxIterations AI_CONFIG" by code_simp
  have 4: "fst (askAI (research_prompt sample_topic) sample_env ?w) = Inl rate_limited_error" by code_simp
  have 5: "?R = (fst ?R, snd ?R)" by simp
  have 6: "key_configured sample_env" by code_simp
  have 7: "factcheck_calls ?w = 0" "sent ?w = []" by code_simp+
  have 8: "research_prompt sample_topic = ''Research this topic: quantum computing''" by code_simp
  have 9: "message rate_limited_error = ''OpenAI API: rate limited''" by code_simp
  from first_research_failure[OF 1 2 3 4 5] 6 7 8 9 show ?thesis by simp
qed

subsection \<open>A failing fact-check call\<close>

text \<open>
  C2. The claim asks for a run that fails with the provider's error when the second request,
  the first fact-check, is rejected. The code does otherwise: with the first research call
  answered and the first fact-check call rejected with \<open>rate limited\<close>, \<open>askAI\<close> throws
  that error inside \<open>FactCheckerDO.fetch\<close>, the run goes on to a second research and
  fact-check pass, four requests in all, and ends with status 200 and the second pass's result.
\<close>

theorem factcheck_failure_swallowed:
  "fst (askAI (factcheck_prompt (Some (JStr ''re: Research this topic: quantum computing''))) sample_env
         (snd (ResearchFetcherDO_fetch sample_env (currentData (initial_vars sample_topic)) (fresh_world (fails_at 1)))))
     = Inl rate_limited_error \<and>
   fst (start sample_env sample_request (fresh_world (fails_at 1))) =
     \<lparr>status = 200,
      body = JObj [(''research'', JStr ''re: Verify and improve: re: Research this topic: quantum computing''),
                   (''iteration'', JNum 2)]\<rparr> \<and>
   length (sent (snd (start sample_env sample_request (fresh_world (fails_at 1))))) = 4"
  by code_simp

text \<open>
  C10, as amended. When the completion call of a fact-check fails, \<open>FactCheckerDO.fetch\<close> does
  not throw: it catches the error and answers with status 500 and a JSON body whose \<open>error\<close>
  is the message of that error and whose \<open>stack\<close> is its stack. The call is logged as a
  failed fact-check, not as a completed one, and the fact-check prompt is the only request it
  has sent.
\<close>

theorem factcheck_failure_caught:
  assumes research: "get_prop rq ''research'' = Inr r"
    and fails: "fst (askAI (factcheck_prompt r) e w) = Inl err"
  shows "fst (FactCheckerDO_fetch e rq w) =
           \<lparr>status = 500, body = JObj [(''error'', JStr (message err)), (''stack'', JStr (stack err))]\<rparr> \<and>
         factcheck_calls (snd (FactCheckerDO_fetch e rq w)) = factcheck_calls w + 1 \<and>
         factcheck_failed (snd (FactCheckerDO_fetch e rq w)) = factcheck_failed w + 1 \<and>
         factcheck_completed (snd (FactCheckerDO_fetch e rq w)) = factcheck_completed w \<and>
         sent (snd (FactCheckerDO_fetch e rq w)) =
           (if key_configured e then sent w @ [factcheck_prompt r] else sent w)"
proof -
  let ?w2 = "emit (Log ''Calling OpenAI for fact check...'') (emit (Log_json ''FactCheckerDO received:'' rq) w)"
  have "fst (askAI (factcheck_prompt r) e ?w2) = Inl err"
    using fails by (simp add: askAI_console_independent)
  then obtain w3 where ask: "askAI (factcheck_prompt r) e ?w2 = (Inl err, w3)"
    by (cases "askAI (factcheck_prompt r) e ?w2") simp
  have t: "FactCheckerDO_try e rq w = (Inl err, w3)"
    using research ask by (simp add: FactCheckerDO_try_def Let_def)
  have f: "FactCheckerDO_fetch e rq w =
      (error_payload err, emit (Log_error ''Error in FactCheckerDO:'' err) w3)"
    using t by (simp add: FactCheckerDO_fetch_def)
  from askAI_counts[OF ask] askAI_sent[OF ask] f show ?thesis
    by (simp add: error_payload_def same_counts_def counters)
qed

theorem factcheck_failure_caught_witness:
  "fst (FactCheckerDO_fetch sample_env draft_payload (fresh_world (fails_at 0))) =
     \<lparr>status = 500,
      body = JObj [(''error'', JStr ''OpenAI API: rate limited''),
                   (''stack'', JStr ''Error: OpenAI API: rate limited'')]\<rparr> \<and>
   factcheck_failed (snd (FactCheckerDO_fetch sample_env draft_payload (fresh_world (fails_at 0)))) = 1 \<and>
   factcheck_completed (snd (FactCheckerDO_fetch sample_env draft_payload (fresh_world (fails_at 0)))) = 0 \<and>
   sent (snd (FactCheckerDO_fetch sample_env draft_payload (fresh_world (fails_at 0)))) =
     [''Verify and improve: a first draft'']"
proof -
  let ?w = "fresh_world (fails_at 0)"
  let ?r = "Some (JStr ''a first draft'')"
  have 1: "get_prop draft_payload ''research'' = Inr ?r" by code_simp
  have 2: "fst (askAI (factcheck_prompt ?r) sample_env ?w) = Inl rate_limited_error" by code_simp
  have 3: "key_configured sample_env" by code_simp
  have 4: "factcheck_failed ?w = 0" "factcheck_completed ?w = 0" "sent ?w = []" by code_simp+
  have 5: "factcheck_prompt ?r = ''Verify and improve: a first draft''" by code_simp
  have 6: "message rate_limited_error = ''OpenAI API: rate limited''"
    "stack rate_limited_error = ''Error: OpenAI API: rate limited''" by code_simp+
  from factcheck_failure_caught[OF 1 2] 3 4 5 6 show ?thesis by simp
qed

text \<open>
  C10, as stated, fails: with the first fact-check rejected and the later requests answered,
  the error payload of the first pass is not what the handler returns; the run ends with
  status 200 and another body.
\<close>

theorem factcheck_failure_payload_overwritten:
  "finalResult (projr (fst (loop_pass sample_env sample_topic (initial_vars sample_topic)
       (fresh_world (fails_at 1))))) = body (error_payload rate_limited_error) \<and>
   status (fst (start sample_env sample_request (fresh_world (fails_at 1)))) = 200 \<and>
   body (fst (start sample_env sample_request (fresh_world (fails_at 1)))) \<noteq> body (error_payload rate_limited_error)"
  by code_simp

subsection \<open>The research prompt\<close>

text \<open>
  C7. The claim asks that a later research call continue from the fact-checked research. In the
  code \<open>/start\<close> does put that research into \<open>currentData\<close>, but
  \<open>ResearchFetcherDO.fetch\<close> reads \<open>topic\<close> and \<open>iteration\<close> only: the research prompt
  of the second pass is the prompt of the first pass, letter for letter.
\<close>

theorem research_prompt_ignores_prior_research:
  "currentData (projr (fst (loop_pass sample_env sample_topic (initial_vars sample_topic) (fresh_world always_ok)))) =
     JObj [(''topic'', JStr ''quantum computing''),
           (''research'', JStr ''re: Verify and improve: re: Research this topic: quantum computing''),
           (''iteration'', JNum 1)] \<and>
   sent (snd (start sample_env sample_request (fresh_world always_ok))) =
     [''Research this topic: quantum computing'',
      ''Verify and improve: re: Research this topic: quantum computing'',
      ''Research this topic: quantum computing'',
      ''Verify and improve: re: Research this topic: quantum computing'']"
  by code_simp

lemma askAI_sdk_sent:
  "askAI_sdk p e w = (r, w') \<Longrightarrow> sent w' = (if key_configured e then sent w @ [p] else sent w)"
  by (auto simp: askAI_sdk_def safe_sdk_def askAI_sdk_body_def call_provider_def
           split: prod.splits sum.splits if_splits sdk_reply.splits option.splits)

lemma destructure_topic:
  "get_prop rq ''topic'' = Inr t \<Longrightarrow> \<exists>i. destructure rq = Inr (t, i)"
  by (cases rq) (auto simp: destructure_def split: option.splits)

lemma research_sent:
  assumes "get_prop rq ''topic'' = Inr t"
  shows "sent (snd (ResearchFetcherDO_fetch e rq w)) =
           sent w @ (if truthy t \<and> key_configured e then [research_prompt t] else [])"
proof -
  from destructure_topic[OF assms] obtain i where d: "destructure rq = Inr (t, i)" by blast
  show ?thesis
  proof (cases "truthy t")
    case False
    with d show ?thesis
      by (simp add: ResearchFetcherDO_fetch_def safe_def ResearchFetcherDO_body_def)
  next
    case True
    obtain r w1 where a: "askAI (research_prompt t) e (emit (Log ''ResearchFetcherDO started'') w) = (r, w1)"
      by (cases "askAI (research_prompt t) e (emit (Log ''ResearchFetcherDO started'') w)")
    from askAI_sent[OF a] a d True show ?thesis
      by (cases r) (simp_all add: ResearchFetcherDO_fetch_def safe_def ResearchFetcherDO_body_def)
  qed
qed

lemma research_sdk_sent:
  assumes "get_prop rq ''topic'' = Inr t"
  shows "sent (snd (ResearchFetcherDO_sdk_fetch e rq w)) =
           sent w @ (if truthy t \<and> key_configured e then [research_prompt t] else [])"
proof -
  from destructure_topic[OF assms] obtain i where d: "destructure rq = Inr (t, i)" by blast
  show ?thesis
  proof (cases "truthy t")
    case False
    with d show ?thesis
      by (simp add: ResearchFetcherDO_sdk_fetch_def safe_sdk_def ResearchFetcherDO_sdk_body_def)
  next
    case True
    obtain r w1 where a: "askAI_sdk (research_prompt t) e (emit (Log ''ResearchFetcherDO started'') w) = (r, w1)"
      by (cases "askAI_sdk (research_prompt t) e (emit (Log ''ResearchFetcherDO started'') w)")
    from askAI_sdk_sent[OF a] a d True show ?thesis
      by (cases r) (simp_all add: ResearchFetcherDO_sdk_fetch_def safe_sdk_def ResearchFetcherDO_sdk_body_def)
  qed
qed

text \<open>
  C8. Two calls of \<open>ResearchFetcherDO.fetch\<close> whose payloads agree on \<open>topic\<close> and
  \<open>iteration\<close> send the same prompts to the provider, whatever else the payloads carry,
  whatever the two worlds (provider, history, console) are, in both sources; and the only
  prompt such a call can send is \<open>Research this topic: \<close> followed by the topic. (The
  environments must agree on whether a credential is configured: without one nothing is sent.)
\<close>

theorem research_prompt_pure:
  assumes "get_prop rq1 ''topic'' = Inr t" "get_prop rq2 ''topic'' = Inr t"
    and "get_prop rq1 ''iteration'' = get_prop rq2 ''iteration''"
    and "key_configured e1 = key_configured e2"
  shows "drop (length (sent w1)) (sent (snd (ResearchFetcherDO_fetch e1 rq1 w1))) =
         drop (length (sent w2)) (sent (snd (ResearchFetcherDO_fetch e2 rq2 w2))) \<and>
         drop (length (sent u1)) (sent (snd (ResearchFetcherDO_sdk_fetch e1 rq1 u1))) =
         drop (length (sent u2)) (sent (snd (ResearchFetcherDO_sdk_fetch e2 rq2 u2))) \<and>
         set (drop (length (sent w1)) (sent (snd (ResearchFetcherDO_fetch e1 rq1 w1)))) \<subseteq> {research_prompt t} \<and>
         set (drop (length (sent u1)) (sent (snd (ResearchFetcherDO_sdk_fetch e1 rq1 u1)))) \<subseteq> {research_prompt t}"
  using assms by (auto simp: research_sent research_sdk_sent)

theorem research_prompt_pure_witness:
  "sent (snd (ResearchFetcherDO_fetch sample_env (currentData (initial_vars sample_topic)) (fresh_world always_ok))) =
   sent (snd (ResearchFetcherDO_fetch sample_env refined_request (fresh_world (fails_at 0)))) \<and>
   sent (snd (ResearchFetcherDO_sdk_fetch sample_env (currentData (initial_vars sample_topic)) (fresh_world sdk_always_ok))) =
   sent (snd (ResearchFetcherDO_sdk_fetch sample_env refined_request (fresh_world (sdk_fails_at 0)))) \<and>
   set (sent (snd (ResearchFetcherDO_fetch sample_env (currentData (initial_vars sample_topic)) (fresh_world always_ok))))
     \<subseteq> {''Research this topic: quantum computing''}"
proof -
  let ?rq = "currentData (initial_vars sample_topic)"
  have 1: "get_prop ?rq ''topic'' = Inr sample_topic" by code_simp
  have 2: "get_prop refined_request ''topic'' = Inr sample_topic" by code_simp
  have 3: "get_prop ?rq ''iteration'' = get_prop refined_request ''iteration''" by code_simp
  have 4: "key_configured sample_env = key_configured sample_env" by simp
  have 5: "sent (fresh_world always_ok) = []" "sent (fresh_world (fails_at 0)) = []"
    "sent (fresh_world sdk_always_ok) = []" "sent (fresh_world (sdk_fails_at 0)) = []" by code_simp+
  have 6: "research_prompt sample_topic = ''Research this topic: quantum computing''" by code_simp
  from research_prompt_pure[OF 1 2 3 4, of "fresh_world always_ok" "fresh_world (fails_at 0)"
      "fresh_world sdk_always_ok" "fresh_world (sdk_fails_at 0)"]
  have "drop 0 (sent (snd (ResearchFetcherDO_fetch sample_env ?rq (fresh_world always_ok)))) =
        drop 0 (sent (snd (ResearchFetcherDO_fetch sample_env refined_request (fresh_world (fails_at 0))))) \<and>
        drop 0 (sent (snd (ResearchFetcherDO_sdk_fetch sample_env ?rq (fresh_world sdk_always_ok)))) =
        drop 0 (sent (snd (ResearchFetcherDO_sdk_fetch sample_env refined_request (fresh_world (sdk_fails_at 0))))) \<and>
        set (drop 0 (sent (snd (ResearchFetcherDO_fetch sample_env ?rq (fresh_world always_ok)))))
          \<subseteq> {''Research this topic: quantum computing''}"
    unfolding 5 6 list.size by blast
  then show ?thesis unfolding drop_0 .
qed

subsection \<open>The second source: cap and threshold\<close>










lemma run_loop_exit:
  "maxIterations cfg \<le> iteration v \<Longrightarrow> run_loop cfg e t v w = (Inr v, w)"
  by (simp add: run_loop.simps[of cfg e t v w])

lemma run_loop_sdk_exit:
  "\<not> below_cap (iteration v) (cfg_maxIterations cfg) \<Longrightarrow> run_loop_sdk ge cfg e t v w = (Inr v, w)"
  by (simp add: run_loop_sdk.simps[of ge cfg e t v w])

text \<open>
  C6, as amended. Neither source validates the cap. With \<open>MAX_ITERATIONS\<close> read as \<open>0\<close>
  (and, in the first source, with \<open>maxIterations = 0\<close> in place of its constant) the loop body
  is never entered: \<open>/start\<close> answers with status 200 and the body \<open>null\<close>, and the world is
  left as it was: no stage called, no request sent, nothing logged.
\<close>

theorem zero_iterations_returns_null:
  assumes "MAX_ITERATIONS e = Some mi" "parseInt (or_default (var_to_string mi) ''5'') = Some 0"
    and "CONFIDENCE_THRESHOLD e = Some ct"
    and "get_prop b ''topic'' = Inr t"
    and "maxIterations cfg = 0"
  shows "start_sdk pf ge e (Inr b) w = (\<lparr>status = 200, body = JNull\<rparr>, w) \<and>
         start_with cfg e' (Inr b) u = (\<lparr>status = 200, body = JNull\<rparr>, u)"
proof -
  have i0: "iteration (initial_vars t) = 0" "finalResult (initial_vars t) = JNull"
    by (simp_all add: initial_vars_def)
  have "start_sdk pf ge e (Inr b) w = (\<lparr>status = 200, body = JNull\<rparr>, w)"
    using assms(1-4) i0
    by (simp add: start_sdk_def start_sdk_try_def read_config_def respond_def start_catch_def
                  run_loop_sdk_exit below_cap_def)
  moreover have "start_with cfg e' (Inr b) u = (\<lparr>status = 200, body = JNull\<rparr>, u)"
    using assms(4,5) i0
    by (simp add: start_with_def start_try_def respond_def start_catch_def run_loop_exit)
  ultimately show ?thesis by simp
qed

theorem zero_iterations_returns_null_witness:
  "fst (start_sdk no_float never_ge (sample_env_sdk ''0'') (Inr sample_body) (fresh_world sdk_always_ok)) =
     \<lparr>status = 200, body = JNull\<rparr> \<and>
   fst (start_with zero_cap sample_env (Inr sample_body) (fresh_world always_ok)) =
     \<lparr>status = 200, body = JNull\<rparr>"
proof -
  have 1: "MAX_ITERATIONS (sample_env_sdk ''0'') = Some (Text ''0'')" by code_simp
  have 2: "parseInt (or_default (var_to_string (Text ''0'')) ''5'') = Some 0" by code_simp
  have 3: "CONFIDENCE_THRESHOLD (sample_env_sdk ''0'') = Some (Text ''0.9'')" by code_simp
  have 4: "get_prop sample_body ''topic'' = Inr sample_topic" by code_simp
  have 5: "maxIterations zero_cap = 0" by code_simp
  from zero_iterations_returns_null[OF 1 2 3 4 5, of no_float never_ge "fresh_world sdk_always_ok"
      sample_env "fresh_world always_ok"]
  show ?thesis by simp
qed

text \<open>
  C6, as stated, fails: with \<open>MAX_ITERATIONS = "0"\<close> the run is not rejected, it returns
  \<open>null\<close> with status 200.
\<close>

theorem zero_iterations_not_rejected:
  "fst (start_sdk no_float never_ge (sample_env_sdk ''0'') sample_request (fresh_world sdk_always_ok)) =
     \<lparr>status = 200, body = JNull\<rparr> \<and>
   sent (snd (start_sdk no_float never_ge (sample_env_sdk ''0'') sample_request (fresh_world sdk_always_ok))) = [] \<and>
   console (snd (start_sdk no_float never_ge (sample_env_sdk ''0'') sample_request (fresh_world sdk_always_ok))) = []"
  by code_simp

text \<open>
  C9. The claim asks for a \<open>research\<close> field that is the completion text. In the second source
  it is the \<open>AIResponse\<close> object \<open>{content: ...}\<close> that \<open>askAI\<close> returns, and the
  fact-check prompt is built from that object (\<open>[object Object]\<close>); the first source does
  return the text.
\<close>

theorem research_field_is_object:
  "fst (start_sdk no_float never_ge (sample_env_sdk ''3'') sample_request (fresh_world sdk_always_ok)) =
     \<lparr>status = 200,
      body = JObj [(''research'', JObj [(''content'', JStr ''re: Verify and improve: [object Object]'')]),
                   (''iteration'', JNum 3)]\<rparr> \<and>
   fst (start sample_env sample_request (fresh_world always_ok)) =
     \<lparr>status = 200,
      body = JObj [(''research'', JStr ''re: Verify and improve: re: Research this topic: quantum computing''),
                   (''iteration'', JNum 2)]\<rparr>"
  by code_simp

subsection \<open>What \<open>askAI\<close> does with a failure\<close>

lemma askAI_returns:
  "askAI p e w = (Inr c, w') \<Longrightarrow>
     key_configured e \<and> (\<exists>result. provider w (length (sent w)) p = Http True result \<and> content_of result = Inr c)"
  by (auto simp: askAI_def safe_def askAI_body_def call_provider_def
           split: prod.splits sum.splits if_splits fetch_reply.splits)

lemma askAI_rejects:
  "key_configured e \<Longrightarrow> provider w (length (sent w)) p = Rejects err \<Longrightarrow> fst (askAI p e w) = Inl err"
  by (auto simp: askAI_def safe_def askAI_body_def call_provider_def)

lemma askAI_not_ok:
  "key_configured e \<Longrightarrow> provider w (length (sent w)) p = Http False result \<Longrightarrow> \<exists>err. fst (askAI p e w) = Inl err"
  by (auto simp: askAI_def safe_def askAI_body_def call_provider_def split: sum.splits)

lemma askAI_sdk_throws:
  "askAI_sdk p e u = (Inl err, u') \<Longrightarrow> \<not> key_configured e \<and> sent u' = sent u"
  by (auto simp: askAI_sdk_def safe_sdk_def askAI_sdk_body_def call_provider_def
           split: prod.splits sum.splits if_splits sdk_reply.splits option.splits)

lemma askAI_sdk_rejects:
  "key_configured e \<Longrightarrow> provider u (length (sent u)) p = Sdk_rejects (Some err) \<Longrightarrow>
   fst (askAI_sdk p e u) = Inr (ai_failure (message err))"
  by (auto simp: askAI_sdk_def safe_sdk_def askAI_sdk_body_def call_provider_def)

text \<open>
  C3, as amended. Neither \<open>askAI\<close> retries: a call makes at most one call of the
  completion client (\<open>fetch\<close>, or the library's \<open>completions.create\<close>). In the first
  source \<open>askAI\<close> returns a value only for an answer with \<open>response.ok\<close>, and that value is
  the content of the answer; a rejected \<open>fetch\<close> is thrown to the caller as it is, and an
  answer that is not \<open>ok\<close> is thrown as well. In the second source \<open>askAI\<close> throws only
  when no credential is configured; a rejected completion is returned as the value
  \<open>{content: "", error: message}\<close>.
\<close>

theorem askAI_failure_propagation:
  assumes a: "askAI p e w = (r, w')" and b: "askAI_sdk p e u = (r', u')"
  shows "length (sent w') \<le> length (sent w) + 1 \<and> length (sent u') \<le> length (sent u) + 1 \<and>
         (\<forall>c. r = Inr c \<longrightarrow> key_configured e \<and>
              (\<exists>result. provider w (length (sent w)) p = Http True result \<and> content_of result = Inr c)) \<and>
         (\<forall>err. key_configured e \<and> provider w (length (sent w)) p = Rejects err \<longrightarrow> r = Inl err) \<and>
         (\<forall>result. key_configured e \<and> provider w (length (sent w)) p = Http False result \<longrightarrow> isl r) \<and>
         (\<forall>err. r' = Inl err \<longrightarrow> \<not> key_configured e) \<and>
         (\<forall>err. key_configured e \<and> provider u (length (sent u)) p = Sdk_rejects (Some err) \<longrightarrow>
              r' = Inr (JObj [(''content'', JStr ''''), (''error'', JStr (message err))]))"
proof -
  have 1: "length (sent w') \<le> length (sent w) + 1" using askAI_sent[OF a] by simp
  have 2: "length (sent u') \<le> length (sent u) + 1" using askAI_sdk_sent[OF b] by simp
  have 3: "\<forall>c. r = Inr c \<longrightarrow> key_configured e \<and>
              (\<exists>result. provider w (length (sent w)) p = Http True result \<and> content_of result = Inr c)"
    using askAI_returns[of p e w _ w'] a by blast
  have 4: "\<forall>err. key_configured e \<and> provider w (length (sent w)) p = Rejects err \<longrightarrow> r = Inl err"
    using askAI_rejects[of e w p] a by auto
  have 5: "\<forall>result. key_configured e \<and> provider w (length (sent w)) p = Http False result \<longrightarrow> isl r"
    using askAI_not_ok[of e w p] a by auto
  have 6: "\<forall>err. r' = Inl err \<longrightarrow> \<not> key_configured e"
    using askAI_sdk_throws[of p e u _ u'] b by blast
  have 7: "\<forall>err. key_configured e \<and> provider u (length (sent u)) p = Sdk_rejects (Some err) \<longrightarrow>
              r' = Inr (JObj [(''content'', JStr ''''), (''error'', JStr (message err))])"
    using askAI_sdk_rejects[of e u p] b by (auto simp: ai_failure_def)
  from 1 2 3 4 5 6 7 show ?thesis by blast
qed

theorem askAI_failure_propagation_witness:
  "fst (askAI ''Research this topic: quantum computing'' sample_env (fresh_world network_down)) =
     Inl \<lparr>message = ''fetch failed'', stack = ''TypeError: fetch failed''\<rparr> \<and>
   isl (fst (askAI ''Research this topic: quantum computing'' sample_env (fresh_world (fails_at 0)))) \<and>
   length (sent (snd (askAI ''Research this topic: quantum computing'' sample_env (fresh_world (fails_at 0))))) \<le> 1 \<and>
   fst (askAI_sdk ''Research this topic: quantum computing'' sample_env (fresh_world (sdk_fails_at 0))) =
     Inr (JObj [(''content'', JStr ''''), (''error'', JStr ''rate limited'')]) \<and>
   content_of (completion ''re: Research this topic: quantum computing'') =
     Inr (Some (JStr ''re: Research this topic: quantum computing'')) \<and>
   \<not> key_configured no_key_env"
proof -
  let ?p = "''Research this topic: quantum computing''"
  let ?A = "\<lambda>e w. askAI ?p e (fresh_world w)"
  let ?B = "\<lambda>e u. askAI_sdk ?p e (fresh_world u)"
  have c: "\<And>(x :: (json option) thrown \<times> fetch_reply world). x = (fst x, snd x)"
          "\<And>(y :: json thrown \<times> sdk_reply world). y = (fst y, snd y)" by simp_all
  have k: "key_configured sample_env" by code_simp
  have e: "sent (fresh_world network_down) = []" "sent (fresh_world (fails_at 0)) = []"
    "sent (fresh_world (sdk_fails_at 0)) = []" "sent (fresh_world always_ok) = []" by code_simp+
  have p1: "provider (fresh_world network_down) 0 ?p =
      Rejects \<lparr>message = ''fetch failed'', stack = ''TypeError: fetch failed''\<rparr>" by code_simp
  have p2: "provider (fresh_world (fails_at 0)) 0 ?p = Http False (JObj [(''error'', JObj [(''message'', JStr ''rate limited'')])])"
    by code_simp
  have p3: "provider (fresh_world (sdk_fails_at 0)) 0 ?p =
      Sdk_rejects (Some \<lparr>message = ''rate limited'', stack = ''Error: rate limited''\<rparr>)" by code_simp
  have p4: "provider (fresh_world always_ok) 0 ?p = Http True (completion ''re: Research this topic: quantum computing'')"
    by code_simp
  have r4: "fst (?A sample_env always_ok) = Inr (Some (JStr ''re: Research this topic: quantum computing''))"
    by code_simp
  have r5: "isl (fst (?B no_key_env sdk_always_ok))" by code_simp
  note t1 = askAI_failure_propagation[OF c(1)[of "?A sample_env network_down"] c(2)[of "?B sample_env (sdk_fails_at 0)"]]
  note t2 = askAI_failure_propagation[OF c(1)[of "?A sample_env (fails_at 0)"] c(2)[of "?B sample_env (sdk_fails_at 0)"]]
  note t3 = askAI_failure_propagation[OF c(1)[of "?A sample_env always_ok"] c(2)[of "?B sample_env (sdk_fails_at 0)"]]
  note t4 = askAI_failure_propagation[OF c(1)[of "?A no_key_env always_ok"] c(2)[of "?B no_key_env sdk_always_ok"]]
  have a1: "fst (?A sample_env network_down) = Inl \<lparr>message = ''fetch failed'', stack = ''TypeError: fetch failed''\<rparr>"
    using t1 k p1 e by auto
  have a2: "isl (fst (?A sample_env (fails_at 0)))" using t2 k p2 e by auto
  have a3: "length (sent (snd (?A sample_env (fails_at 0)))) \<le> 1" using t2 e by auto
  have a4: "fst (?B sample_env (sdk_fails_at 0)) = Inr (JObj [(''content'', JStr ''''), (''error'', JStr ''rate limited'')])"
    using t1 k p3 e by auto
  have a5: "content_of (completion ''re: Research this topic: quantum computing'') =
     Inr (Some (JStr ''re: Research this topic: quantum computing''))"
    using t3 r4 p4 e by auto
  have a6: "\<not> key_configured no_key_env" using t4 r5 by (cases "fst (?B no_key_env sdk_always_ok)") auto
  from a1 a2 a3 a4 a5 a6 show ?thesis by blast
qed

text \<open>
  C3, as stated, fails in the second source: a rejected completion comes back from \<open>askAI\<close>
  as an \<open>AIResponse\<close> with empty content, and the run ends with status 200.
\<close>

theorem sdk_failure_becomes_empty_content:
  "fst (askAI_sdk ''Research this topic: quantum computing'' (sample_env_sdk ''3'')
          (fresh_world (sdk_fails_at 0))) =
     Inr (JObj [(''content'', JStr ''''), (''error'', JStr ''rate limited'')]) \<and>
   fst (start_sdk no_float never_ge (sample_env_sdk ''1'') sample_request (fresh_world (sdk_fails_at 0))) =
     \<lparr>status = 200,
      body = JObj [(''research'', JObj [(''content'', JStr ''re: Verify and improve: [object Object]'')]),
                   (''iteration'', JNum 1)]\<rparr>"
  by code_simp

end
